theory Spec2Isabelle
  imports Main "HOL-Library.Word" "HOL-Library.Sublist"
begin

section \<open>JavaScript strings\<close>

text \<open>
  A JavaScript string is a sequence of UTF-16 code units. The literals of the source are
  ASCII; \<open>lit\<close> turns an ASCII literal into its code units.
\<close>

type_synonym code_unit = "16 word"
type_synonym js_string = "code_unit list"

definition lit :: "string \<Rightarrow> js_string" where
  "lit s = map of_char s"

text \<open>
  \<open>String.prototype.includes\<close>: the search string occurs at some position. Every
  string includes the empty string.
\<close>

fun startsWith :: "js_string \<Rightarrow> js_string \<Rightarrow> bool" where
  "startsWith s [] = True"
| "startsWith [] (c # t) = False"
| "startsWith (d # s) (c # t) = (d = c \<and> startsWith s t)"

fun js_includes :: "js_string \<Rightarrow> js_string \<Rightarrow> bool" where
  "js_includes [] t = (t = [])"
| "js_includes (d # s) t = (startsWith (d # s) t \<or> js_includes s t)"

text \<open>
  \<open>String.prototype.trim\<close> removes leading and trailing white space and line
  terminators (ECMAScript: TAB, VT, FF, SP, NBSP, ZWNBSP, the space separators of
  Unicode, LF, CR, LS, PS).
\<close>

definition isWhiteSpace :: "code_unit \<Rightarrow> bool" where
  "isWhiteSpace c \<longleftrightarrow>
     c = 0x0009 \<or> c = 0x000A \<or> c = 0x000B \<or> c = 0x000C \<or> c = 0x000D \<or> c = 0x0020 \<or>
     c = 0x00A0 \<or> c = 0x1680 \<or> (0x2000 \<le> c \<and> c \<le> 0x200A) \<or> c = 0x2028 \<or>
     c = 0x2029 \<or> c = 0x202F \<or> c = 0x205F \<or> c = 0x3000 \<or> c = 0xFEFF"

definition trim :: "js_string \<Rightarrow> js_string" where
  "trim s = rev (dropWhile isWhiteSpace (rev (dropWhile isWhiteSpace s)))"

text \<open>Truthiness of a string: the empty string is falsy.\<close>

definition truthy :: "js_string \<Rightarrow> bool" where
  "truthy s \<longleftrightarrow> s \<noteq> []"

section \<open>Agent catalog and required API keys\<close>

datatype Provider = Openai | Gemini | Cursor | Anthropic | Aigateway

text \<open>
  \<open>AGENT_API_KEY_REQUIREMENTS\<close>, a \<open>Record<string, Provider[]>\<close>: a lookup of a
  key that is not in the table is \<open>None\<close>.
\<close>

definition AGENT_API_KEY_REQUIREMENTS :: "js_string \<Rightarrow> Provider list option" where
  "AGENT_API_KEY_REQUIREMENTS agent =
     (if agent = lit ''claude'' then Some [Anthropic]
      else if agent = lit ''codex'' then Some [Aigateway]
      else if agent = lit ''opencode'' then Some []
      else None)"

definition getOpenCodeRequiredKeys :: "js_string \<Rightarrow> Provider list" where
  "getOpenCodeRequiredKeys model =
     (if js_includes model (lit ''gemini'') then [Gemini]
      else if js_includes model (lit ''claude'') \<or> js_includes model (lit ''sonnet'')
              \<or> js_includes model (lit ''opus'') then [Anthropic]
      else if js_includes model (lit ''gpt'') then [Aigateway]
      else [Aigateway, Anthropic])"

text \<open>
  An entry of \<open>CODING_AGENTS\<close> or of a model list: its \<open>value\<close> and
  \<open>label\<close> (the icon and the \<open>isLogo\<close> flag of an agent play no part in the
  logic). No entry of \<open>CODING_AGENTS\<close> has an \<open>isDivider\<close> key, so the test
  \<open>!('isDivider' in agent && agent.isDivider)\<close> holds of each.
\<close>

record select_option =
  opt_value :: js_string
  opt_label :: js_string

definition CODING_AGENTS :: "select_option list" where
  "CODING_AGENTS =
     [\<lparr>opt_value = lit ''codex'', opt_label = lit ''Codex''\<rparr>,
      \<lparr>opt_value = lit ''claude'', opt_label = lit ''Claude''\<rparr>,
      \<lparr>opt_value = lit ''opencode'', opt_label = lit ''Opencode''\<rparr>]"

definition AGENT_MODELS :: "js_string \<Rightarrow> select_option list option" where
  "AGENT_MODELS agent =
     (if agent = lit ''codex''
        then Some [\<lparr>opt_value = lit ''gpt-5.1-codex'', opt_label = lit ''GPT-5.1-Codex''\<rparr>]
      else if agent = lit ''claude''
        then Some [\<lparr>opt_value = lit ''claude-sonnet-4-5-20250929'', opt_label = lit ''Sonnet 4.5''\<rparr>]
      else if agent = lit ''opencode''
        then Some [\<lparr>opt_value = lit ''gemini-3-pro-preview'', opt_label = lit ''Gemini 3 Pro''\<rparr>]
      else None)"

definition DEFAULT_MODELS :: "js_string \<Rightarrow> js_string option" where
  "DEFAULT_MODELS agent =
     (if agent = lit ''codex'' then Some (lit ''gpt-5.1-codex'')
      else if agent = lit ''claude'' then Some (lit ''claude-sonnet-4-5-20250929'')
      else if agent = lit ''opencode'' then Some (lit ''gemini-3-pro-preview'')
      else None)"

definition defaultAgent :: js_string where
  "defaultAgent = lit ''codex''"

text \<open>\<open>CODING_AGENTS.some((agent) => agent.value === a && ...)\<close>\<close>

definition isCodingAgent :: "js_string \<Rightarrow> bool" where
  "isCodingAgent a = list_ex (\<lambda>agent. opt_value agent = a) CODING_AGENTS"

text \<open>\<open>AGENT_MODELS[a]?.some((model) => model.value === m)\<close>, falsy when the lookup is undefined.\<close>

definition isAgentModel :: "js_string \<Rightarrow> js_string \<Rightarrow> bool" where
  "isAgentModel a m =
     (case AGENT_MODELS a of None \<Rightarrow> False
      | Some agentModels \<Rightarrow> list_ex (\<lambda>model. opt_value model = m) agentModels)"

section \<open>The task form\<close>

record GitHubRepo =
  name :: js_string
  full_name :: js_string
  description :: js_string
  is_private :: bool
  clone_url :: js_string
  language :: js_string

text \<open>
  What the component reads from outside: the URL parameters, the atoms (prompt, last
  selected agent, last selected model per agent, repository list per owner) and its
  props. \<open>None\<close> is \<open>null\<close> or \<open>undefined\<close>.
\<close>

record task_form_inputs =
  urlAgent :: "js_string option"
  urlModel :: "js_string option"
  prompt :: js_string
  savedAgent :: "js_string option"
  savedModels :: "js_string \<Rightarrow> js_string option"
  githubRepos :: "js_string \<Rightarrow> GitHubRepo list option"
  selectedOwner :: js_string
  selectedRepo :: js_string
  initialInstallDependencies :: bool
  initialMaxDuration :: int
  initialKeepAlive :: bool

text \<open>The form as one render sees it: the inputs and the component's own state.\<close>

record form = task_form_inputs +
  selectedAgent :: js_string
  selectedModel :: js_string
  installDependencies :: bool
  maxDuration :: int
  keepAlive :: bool

text \<open>The atoms of the current agent and of the current owner.\<close>

definition savedModel :: "form \<Rightarrow> js_string option" where
  "savedModel f = savedModels f (selectedAgent f)"

definition repos :: "form \<Rightarrow> GitHubRepo list option" where
  "repos f = githubRepos f (selectedOwner f)"

definition setRepos :: "GitHubRepo list option \<Rightarrow> form \<Rightarrow> form" where
  "setRepos v f = f\<lparr>githubRepos := (githubRepos f)(selectedOwner f := v)\<rparr>"

text \<open>\<open>x && P(x)\<close> for a string that may be null: false on null and on the empty string.\<close>

definition truthy_and :: "js_string option \<Rightarrow> (js_string \<Rightarrow> bool) \<Rightarrow> bool" where
  "truthy_and x P = (case x of None \<Rightarrow> False | Some v \<Rightarrow> truthy v \<and> P v)"

subsection \<open>Initial state and the effects on agent and model\<close>

text \<open>The \<open>useState\<close> initialisers of the first render.\<close>

definition initialState :: "task_form_inputs \<Rightarrow> form" where
  "initialState i =
     \<lparr>urlAgent = urlAgent i, urlModel = urlModel i, prompt = prompt i,
      savedAgent = savedAgent i, savedModels = savedModels i, githubRepos = githubRepos i,
      selectedOwner = selectedOwner i, selectedRepo = selectedRepo i,
      initialInstallDependencies = initialInstallDependencies i,
      initialMaxDuration = initialMaxDuration i, initialKeepAlive = initialKeepAlive i,
      selectedAgent =
        (case savedAgent i of
           None \<Rightarrow> defaultAgent
         | Some a \<Rightarrow> if truthy a \<and> isCodingAgent a then a else defaultAgent),
      selectedModel = (case DEFAULT_MODELS defaultAgent of Some m \<Rightarrow> m | None \<Rightarrow> []),
      installDependencies = initialInstallDependencies i,
      maxDuration = initialMaxDuration i,
      keepAlive = initialKeepAlive i\<rparr>"

text \<open>
  An effect reads the values of the render it belongs to (\<open>r\<close>) and queues state
  updates; \<open>q\<close> is the state with the updates queued so far, and the result is the
  state with this effect's updates queued too.
\<close>

definition mountEffect :: "form \<Rightarrow> form \<Rightarrow> form" where
  "mountEffect r q =
     (if truthy_and (urlAgent r) isCodingAgent then
        (case urlAgent r of
           None \<Rightarrow> q
         | Some a \<Rightarrow>
             (let q1 = q\<lparr>selectedAgent := a\<rparr> in
              (case urlModel r of
                 None \<Rightarrow> q1
               | Some m \<Rightarrow>
                   if truthy m \<and> isAgentModel a m then q1\<lparr>selectedModel := m\<rparr> else q1)))
      else
        (case savedAgent r of
           None \<Rightarrow> q
         | Some a \<Rightarrow>
             if truthy a \<and> isCodingAgent a then q\<lparr>selectedAgent := a\<rparr> else q))"

definition modelEffect :: "form \<Rightarrow> form \<Rightarrow> form" where
  "modelEffect r q =
     (if truthy (selectedAgent r) then
        (if truthy_and (savedModel r) (isAgentModel (selectedAgent r)) then
           (case savedModel r of None \<Rightarrow> q | Some m \<Rightarrow> q\<lparr>selectedModel := m\<rparr>)
         else
           (case DEFAULT_MODELS (selectedAgent r) of
              None \<Rightarrow> q
            | Some defaultModel \<Rightarrow>
                if truthy defaultModel then q\<lparr>selectedModel := defaultModel\<rparr> else q))
      else q)"

text \<open>
  The dependencies of the model effect are \<open>[selectedAgent, savedModel]\<close>: after a
  render \<open>r'\<close> that follows a render \<open>r\<close>, the effect runs again when one of them
  has changed. Its own update changes neither, so one more run settles the state.
\<close>

definition modelEffectDepsChanged :: "form \<Rightarrow> form \<Rightarrow> bool" where
  "modelEffectDepsChanged r r' \<longleftrightarrow>
     selectedAgent r \<noteq> selectedAgent r' \<or> savedModel r \<noteq> savedModel r'"

definition rerender :: "form \<Rightarrow> form \<Rightarrow> form" where
  "rerender r r' = (if modelEffectDepsChanged r r' then modelEffect r' r' else r')"

text \<open>
  Mounting: the first render has the initial state; its effects run in the order of the
  source (the mount effect, then the model effect), both reading the first render; the
  state they leave is rendered next.
\<close>

definition mount :: "task_form_inputs \<Rightarrow> form" where
  "mount i =
     (let r0 = initialState i;
          q = modelEffect r0 (mountEffect r0 r0)
      in rerender r0 q)"

text \<open>The \<open>onValueChange\<close> handlers of the two selects, followed by the next render.\<close>

definition onAgentChange :: "js_string \<Rightarrow> form \<Rightarrow> form" where
  "onAgentChange v r = rerender r (r\<lparr>selectedAgent := v, savedAgent := Some v\<rparr>)"

definition onModelChange :: "js_string \<Rightarrow> form \<Rightarrow> form" where
  "onModelChange v r =
     rerender r (r\<lparr>selectedModel := v, savedModels := (savedModels r)(selectedAgent r := Some v)\<rparr>)"

subsection \<open>What the form does to the outside\<close>

text \<open>The argument of \<open>onSubmit\<close>; the optional \<open>selectedModels\<close> is never set.\<close>

record submit_data =
  data_prompt :: js_string
  data_repoUrl :: js_string
  data_selectedAgent :: js_string
  data_selectedModel :: js_string
  data_installDependencies :: bool
  data_maxDuration :: int
  data_keepAlive :: bool

text \<open>
  A value that a template literal interpolates: a string, or the value that an object
  literal inherits from \<open>Object.prototype\<close> under the given key (a function or an
  object, whose conversion to a string is the engine's). A template is the list of its
  pieces in order; it has a text of its own when every piece is a string.
\<close>

datatype js_value = JsString js_string | Inherited js_string

fun template_text :: "js_value list \<Rightarrow> js_string option" where
  "template_text [] = Some []"
| "template_text (JsString s # t) = map_option (\<lambda>rest. s @ rest) (template_text t)"
| "template_text (Inherited k # t) = None"

text \<open>\<open>toast.error\<close> takes the title and the description, two template literals.\<close>

datatype effect =
  Fetch js_string
| ToastError "js_value list" "js_value list"
| ConsoleError
| OnSubmit submit_data

definition isFetch :: "effect \<Rightarrow> bool" where
  "isFetch e = (case e of Fetch u \<Rightarrow> True | _ \<Rightarrow> False)"

definition isOnSubmit :: "effect \<Rightarrow> bool" where
  "isOnSubmit e = (case e of OnSubmit d \<Rightarrow> True | _ \<Rightarrow> False)"


subsection \<open>Fetching the repositories of the owner\<close>

text \<open>
  The answer of \<open>/api/github/repos\<close>: a response that is \<open>ok\<close> and whose body is
  the list; a response that is not \<open>ok\<close>; or \<open>fetch\<close> or \<open>json()\<close> throwing.
\<close>

datatype repos_response = ReposOk "GitHubRepo list" | ReposNotOk | ReposThrows

text \<open>
  One run of the effect, given the answer to the request it may issue: the form
  afterwards and what the run did. (\<open>setLoadingRepos\<close> sets a state that is never read.)
\<close>

definition fetchReposEffect :: "form \<Rightarrow> repos_response \<Rightarrow> form \<times> effect list" where
  "fetchReposEffect r response =
     (if \<not> truthy (selectedOwner r) then (setRepos None r, [])
      else
        (case repos r of
           Some (x # xs) \<Rightarrow> (r, [])
         | _ \<Rightarrow>
             (let request = Fetch (lit ''/api/github/repos?owner='' @ selectedOwner r) in
              (case response of
                 ReposOk reposList \<Rightarrow> (setRepos (Some reposList) r, [request])
               | ReposNotOk \<Rightarrow> (r, [request])
               | ReposThrows \<Rightarrow> (r, [request, ConsoleError])))))"

text \<open>
  The dependencies of the effect are \<open>[selectedOwner, repos, setRepos]\<close>, so the
  effect runs again after a run that gave \<open>repos\<close> a new value. \<open>setRepos(null)\<close>
  does so when the atom held a list; \<open>setRepos(reposList)\<close> always does, the list of
  an answer being a new array.
\<close>

definition reposChanged :: "form \<Rightarrow> repos_response \<Rightarrow> bool" where
  "reposChanged r response =
     (if \<not> truthy (selectedOwner r) then repos r \<noteq> None
      else
        (case repos r of
           Some (x # xs) \<Rightarrow> False
         | _ \<Rightarrow> (case response of ReposOk reposList \<Rightarrow> True | _ \<Rightarrow> False)))"

text \<open>
  The runs of the effect that follow one another while nothing else happens, at most
  \<open>n\<close> of them: what they do, in order. \<open>answers k\<close> is the answer to the request
  of the \<open>k\<close>-th run.
\<close>

fun fetchReposRuns :: "nat \<Rightarrow> form \<Rightarrow> (nat \<Rightarrow> repos_response) \<Rightarrow> effect list" where
  "fetchReposRuns 0 r answers = []"
| "fetchReposRuns (Suc n) r answers =
     snd (fetchReposEffect r (answers 0))
     @ (if reposChanged r (answers 0)
        then fetchReposRuns n (fst (fetchReposEffect r (answers 0))) (\<lambda>k. answers (Suc k))
        else [])"

subsection \<open>Submitting\<close>

text \<open>
  The body of the answer of \<open>/api/api-keys/check\<close>, as the form reads it, or the
  request failing (\<open>fetch\<close> or \<open>json()\<close> throwing). \<open>hasKey\<close> is the
  truthiness of \<open>data.hasKey\<close>; \<open>provider\<close> and \<open>agentName\<close> are strings, as
  the endpoint answers \<open>{ hasKey, provider, agentName }\<close>.
\<close>

record key_check =
  hasKey :: bool
  provider :: js_string
  agentName :: js_string

datatype check_response = CheckThrows | CheckData key_check

definition providerNames :: "(js_string \<times> js_string) list" where
  "providerNames =
     [(lit ''anthropic'', lit ''Anthropic''),
      (lit ''openai'', lit ''OpenAI''),
      (lit ''cursor'', lit ''Cursor''),
      (lit ''gemini'', lit ''Gemini''),
      (lit ''aigateway'', lit ''AI Gateway'')]"

text \<open>
  \<open>providerNames\<close> is an object literal, so a lookup also finds the properties of
  \<open>Object.prototype\<close>. Each of them is a function, or for \<open>__proto__\<close> the
  prototype itself: truthy, and not a string.
\<close>

definition objectPrototypeKeys :: "js_string list" where
  "objectPrototypeKeys =
     [lit ''constructor'', lit ''hasOwnProperty'', lit ''isPrototypeOf'',
      lit ''propertyIsEnumerable'', lit ''toLocaleString'', lit ''toString'',
      lit ''valueOf'', lit ''__proto__'', lit ''__defineGetter__'',
      lit ''__defineSetter__'', lit ''__lookupGetter__'', lit ''__lookupSetter__'']"

text \<open>
  \<open>providerNames[data.provider] || data.provider\<close>: the name of the table, else the
  inherited value, else (the lookup being undefined) the provider itself.
\<close>

definition providerName :: "js_string \<Rightarrow> js_value" where
  "providerName p =
     (case map_of providerNames p of
        Some n \<Rightarrow> if truthy n then JsString n else JsString p
      | None \<Rightarrow> if p \<in> set objectPrototypeKeys then Inherited p else JsString p)"

definition keyRequiredToast :: "key_check \<Rightarrow> effect" where
  "keyRequiredToast d =
     ToastError
       [providerName (provider d), JsString (lit '' API key required'')]
       [JsString (lit ''Please add your ''), providerName (provider d),
        JsString (lit '' API key in the user menu to use the ''), JsString (agentName d),
        JsString (lit '' agent with this model.'')]"

definition submitData :: "form \<Rightarrow> js_string \<Rightarrow> submit_data" where
  "submitData f url =
     \<lparr>data_prompt = trim (prompt f), data_repoUrl = url,
      data_selectedAgent = selectedAgent f, data_selectedModel = selectedModel f,
      data_installDependencies = installDependencies f, data_maxDuration = maxDuration f,
      data_keepAlive = keepAlive f\<rparr>"

text \<open>
  \<open>handleSubmit\<close>, given the answer to the key check it may request: what it does, in
  order.
\<close>

definition handleSubmit :: "form \<Rightarrow> check_response \<Rightarrow> effect list" where
  "handleSubmit f response =
     (if \<not> truthy (trim (prompt f)) then []
      else if \<not> truthy (selectedOwner f) \<or> \<not> truthy (selectedRepo f)
        then [OnSubmit (submitData f [])]
      else
        (let selectedRepoData =
               (case repos f of
                  None \<Rightarrow> None
                | Some rs \<Rightarrow> find (\<lambda>repo. name repo = selectedRepo f) rs)
         in
         (case selectedRepoData of
            None \<Rightarrow> [OnSubmit (submitData f [])]
          | Some repo \<Rightarrow>
              (let request =
                     Fetch (lit ''/api/api-keys/check?agent='' @ selectedAgent f
                            @ lit ''&model='' @ selectedModel f);
                   repoUrl = (if truthy (clone_url repo) then clone_url repo else [])
               in
               (case response of
                  CheckThrows \<Rightarrow> [request, ConsoleError, OnSubmit (submitData f repoUrl)]
                | CheckData d \<Rightarrow>
                    if \<not> hasKey d then [request, keyRequiredToast d]
                    else [request, OnSubmit (submitData f repoUrl)])))))"

section \<open>The database scripts\<close>

text \<open>
  What a script does, in order. The texts of the console lines are left out; the
  message of the thrown error is kept.
\<close>

datatype sql_stmt = DropSchemaIfExistsCascade string | DropTableIfExistsCascade string

datatype script_event =
  ConsoleLog
| ConsoleErr
| Postgres string nat
| Migrate string
| Query sql_stmt
| EndConnection
| Exit nat

datatype 'a outcome = Resolved 'a | Rejected string

definition isPostgres :: "script_event \<Rightarrow> bool" where
  "isPostgres e = (case e of Postgres u m \<Rightarrow> True | _ \<Rightarrow> False)"

definition isExit :: "script_event \<Rightarrow> bool" where
  "isExit e = (case e of Exit n \<Rightarrow> True | _ \<Rightarrow> False)"

text \<open>\<open>!process.env.POSTGRES_URL\<close>: the variable is not set, or set to the empty string.\<close>

definition missing :: "string option \<Rightarrow> bool" where
  "missing v = (case v of None \<Rightarrow> True | Some u \<Rightarrow> u = [])"

subsection \<open>migrate.ts\<close>

text \<open>
  The world of the migration script: the environment variable, and whether
  \<open>migrate\<close> and \<open>migrationClient.end()\<close> throw (\<open>Some\<close> the error's message).
\<close>

record migrate_world =
  POSTGRES_URL :: "string option"
  migrate_throws :: "string option"
  end_throws :: "string option"

definition runMigrations :: "migrate_world \<Rightarrow> script_event list \<times> unit outcome" where
  "runMigrations w =
     (if missing (POSTGRES_URL w)
        then ([ConsoleLog], Rejected ''POSTGRES_URL environment variable is required'')
      else
        (let url = (case POSTGRES_URL w of Some u \<Rightarrow> u | None \<Rightarrow> []);
             (body, result) =
               (case migrate_throws w of
                  None \<Rightarrow> ([Migrate ''./lib/db/migrations'', ConsoleLog], Resolved ())
                | Some error \<Rightarrow> ([Migrate ''./lib/db/migrations'', ConsoleErr], Rejected error))
         in
         ([ConsoleLog, Postgres url 1] @ body @ [EndConnection],
          (case end_throws w of None \<Rightarrow> result | Some error \<Rightarrow> Rejected error))))"

text \<open>The script: \<open>runMigrations\<close> runs when the file is the main module.\<close>

definition migrate_script :: "bool \<Rightarrow> migrate_world \<Rightarrow> script_event list" where
  "migrate_script is_main w =
     (if is_main then
        (case runMigrations w of
           (events, Resolved u) \<Rightarrow> events @ [ConsoleLog, Exit 0]
         | (events, Rejected error) \<Rightarrow> events @ [ConsoleErr, Exit 1])
      else [])"

subsection \<open>The reset script\<close>

text \<open>
  A database, as far as the script is concerned: the names of its schemas and of its
  tables. A \<open>DROP ... IF EXISTS ... CASCADE\<close> removes the object when it is there and
  succeeds when it is not.
\<close>

record database =
  schemas :: "string set"
  tables :: "string set"

fun exec_stmt :: "sql_stmt \<Rightarrow> database \<Rightarrow> database" where
  "exec_stmt (DropSchemaIfExistsCascade n) db = db\<lparr>schemas := schemas db - {n}\<rparr>"
| "exec_stmt (DropTableIfExistsCascade n) db = db\<lparr>tables := tables db - {n}\<rparr>"

text \<open>The statements of the script, in its order.\<close>

definition reset_statements :: "sql_stmt list" where
  "reset_statements =
     [DropSchemaIfExistsCascade ''drizzle'',
      DropTableIfExistsCascade ''anonymous_chat_logs'',
      DropTableIfExistsCascade ''chat_ownerships'',
      DropTableIfExistsCascade ''accounts'',
      DropTableIfExistsCascade ''connectors'',
      DropTableIfExistsCascade ''keys'',
      DropTableIfExistsCascade ''settings'',
      DropTableIfExistsCascade ''task_messages'',
      DropTableIfExistsCascade ''tasks'',
      DropTableIfExistsCascade ''users'',
      DropTableIfExistsCascade ''__drizzle_migrations'']"

text \<open>
  The world of the reset script: the environment variable, the database, whether the
  \<open>i\<close>-th query throws for a reason of the connection (\<open>Some\<close> the error's message),
  and whether \<open>sql.end()\<close> throws.
\<close>

record reset_world =
  reset_POSTGRES_URL :: "string option"
  reset_db :: database
  query_throws :: "nat \<Rightarrow> string option"
  reset_end_throws :: "string option"

text \<open>The awaited queries: the first that throws ends the sequence.\<close>

fun run_queries ::
  "(nat \<Rightarrow> string option) \<Rightarrow> nat \<Rightarrow> sql_stmt list \<Rightarrow> database
     \<Rightarrow> script_event list \<times> database outcome" where
  "run_queries throws i [] db = ([], Resolved db)"
| "run_queries throws i (q # qs) db =
     (case throws i of
        Some error \<Rightarrow> ([Query q], Rejected error)
      | None \<Rightarrow>
          (let (events, result) = run_queries throws (Suc i) qs (exec_stmt q db)
           in (Query q # events, result)))"

definition resetDatabase :: "reset_world \<Rightarrow> script_event list \<times> database outcome" where
  "resetDatabase w =
     (if missing (reset_POSTGRES_URL w)
        then ([ConsoleLog], Rejected ''POSTGRES_URL environment variable is required'')
      else
        (let url = (case reset_POSTGRES_URL w of Some u \<Rightarrow> u | None \<Rightarrow> []);
             (queries, result) = run_queries (query_throws w) 0 reset_statements (reset_db w);
             body = (case result of
                       Resolved db \<Rightarrow> queries @ [ConsoleLog]
                     | Rejected error \<Rightarrow> queries @ [ConsoleErr])
         in
         ([ConsoleLog, Postgres url 1, ConsoleLog] @ body @ [EndConnection],
          (case reset_end_throws w of None \<Rightarrow> result | Some error \<Rightarrow> Rejected error))))"

text \<open>The tables that a list of statements drops.\<close>

fun dropped_tables :: "sql_stmt list \<Rightarrow> string list" where
  "dropped_tables [] = []"
| "dropped_tables (DropTableIfExistsCascade n # qs) = n # dropped_tables qs"
| "dropped_tables (DropSchemaIfExistsCascade n # qs) = dropped_tables qs"

fun dropped_schemas :: "sql_stmt list \<Rightarrow> string list" where
  "dropped_schemas [] = []"
| "dropped_schemas (DropSchemaIfExistsCascade n # qs) = n # dropped_schemas qs"
| "dropped_schemas (DropTableIfExistsCascade n # qs) = dropped_schemas qs"

fun issued_queries :: "script_event list \<Rightarrow> sql_stmt list" where
  "issued_queries [] = []"
| "issued_queries (Query q # es) = q # issued_queries es"
| "issued_queries (e # es) = issued_queries es"

section \<open>Reachable states of the form\<close>

text \<open>
  The states in which the form waits for the next event: the state after mounting, and
  the state after each event once the effects it triggers have run. The agent select
  offers the entries of \<open>CODING_AGENTS\<close>, the model select the models of the
  selected agent; the prompt and the options take any value; the parent may change the
  owner and the repository; the repository effect may write the cache.
\<close>

inductive reachable :: "form \<Rightarrow> bool" where
  mounted: "reachable (mount i)"
| agent_changed: "reachable r \<Longrightarrow> isCodingAgent v \<Longrightarrow> reachable (onAgentChange v r)"
| model_changed: "reachable r \<Longrightarrow> isAgentModel (selectedAgent r) v \<Longrightarrow> reachable (onModelChange v r)"
| prompt_changed: "reachable r \<Longrightarrow> reachable (r\<lparr>prompt := p\<rparr>)"
| install_changed: "reachable r \<Longrightarrow> reachable (r\<lparr>installDependencies := b\<rparr>)"
| duration_changed: "reachable r \<Longrightarrow> reachable (r\<lparr>maxDuration := n\<rparr>)"
| keep_alive_changed: "reachable r \<Longrightarrow> reachable (r\<lparr>keepAlive := b\<rparr>)"
| props_changed: "reachable r \<Longrightarrow> reachable (r\<lparr>selectedOwner := ow, selectedRepo := rp\<rparr>)"
| repos_fetched: "reachable r \<Longrightarrow> reachable (fst (fetchReposEffect r response))"

section \<open>The resolution rules in the words of the specification\<close>

text \<open>
  The agent: the URL parameter if it names a known agent, else the persisted agent if
  known, else codex.
\<close>

definition spec_resolveAgent :: "js_string option \<Rightarrow> js_string option \<Rightarrow> js_string" where
  "spec_resolveAgent url persisted =
     (case url of
        Some a \<Rightarrow> if isCodingAgent a then a
                  else (case persisted of
                          Some b \<Rightarrow> if isCodingAgent b then b else lit ''codex''
                        | None \<Rightarrow> lit ''codex'')
      | None \<Rightarrow> (case persisted of
                   Some b \<Rightarrow> if isCodingAgent b then b else lit ''codex''
                 | None \<Rightarrow> lit ''codex''))"

section \<open>The effects on agent and model over any catalog\<close>

text \<open>
  \<open>CODING_AGENTS\<close>, \<open>AGENT_MODELS\<close> and \<open>DEFAULT_MODELS\<close> are tables of the
  source; the initial state, the two effects and the agent select read them and
  nothing else of the catalog. Below are the same functions with the three tables as a
  parameter, so that what they do can be told apart where an agent has more than one
  model. At the catalog of the source they are the functions above.
\<close>

record catalog =
  cat_agents :: "select_option list"
  cat_models :: "js_string \<Rightarrow> select_option list option"
  cat_defaults :: "js_string \<Rightarrow> js_string option"

definition source_catalog :: catalog where
  "source_catalog =
     \<lparr>cat_agents = CODING_AGENTS, cat_models = AGENT_MODELS, cat_defaults = DEFAULT_MODELS\<rparr>"

definition isCodingAgent_in :: "catalog \<Rightarrow> js_string \<Rightarrow> bool" where
  "isCodingAgent_in c a = list_ex (\<lambda>agent. opt_value agent = a) (cat_agents c)"

definition isAgentModel_in :: "catalog \<Rightarrow> js_string \<Rightarrow> js_string \<Rightarrow> bool" where
  "isAgentModel_in c a m =
     (case cat_models c a of None \<Rightarrow> False
      | Some agentModels \<Rightarrow> list_ex (\<lambda>model. opt_value model = m) agentModels)"

definition initialState_in :: "catalog \<Rightarrow> task_form_inputs \<Rightarrow> form" where
  "initialState_in c i =
     \<lparr>urlAgent = urlAgent i, urlModel = urlModel i, prompt = prompt i,
      savedAgent = savedAgent i, savedModels = savedModels i, githubRepos = githubRepos i,
      selectedOwner = selectedOwner i, selectedRepo = selectedRepo i,
      initialInstallDependencies = initialInstallDependencies i,
      initialMaxDuration = initialMaxDuration i, initialKeepAlive = initialKeepAlive i,
      selectedAgent =
        (case savedAgent i of
           None \<Rightarrow> defaultAgent
         | Some a \<Rightarrow> if truthy a \<and> isCodingAgent_in c a then a else defaultAgent),
      selectedModel = (case cat_defaults c defaultAgent of Some m \<Rightarrow> m | None \<Rightarrow> []),
      installDependencies = initialInstallDependencies i,
      maxDuration = initialMaxDuration i,
      keepAlive = initialKeepAlive i\<rparr>"

definition mountEffect_in :: "catalog \<Rightarrow> form \<Rightarrow> form \<Rightarrow> form" where
  "mountEffect_in c r q =
     (if truthy_and (urlAgent r) (isCodingAgent_in c) then
        (case urlAgent r of
           None \<Rightarrow> q
         | Some a \<Rightarrow>
             (let q1 = q\<lparr>selectedAgent := a\<rparr> in
              (case urlModel r of
                 None \<Rightarrow> q1
               | Some m \<Rightarrow>
                   if truthy m \<and> isAgentModel_in c a m then q1\<lparr>selectedModel := m\<rparr> else q1)))
      else
        (case savedAgent r of
           None \<Rightarrow> q
         | Some a \<Rightarrow>
             if truthy a \<and> isCodingAgent_in c a then q\<lparr>selectedAgent := a\<rparr> else q))"

definition modelEffect_in :: "catalog \<Rightarrow> form \<Rightarrow> form \<Rightarrow> form" where
  "modelEffect_in c r q =
     (if truthy (selectedAgent r) then
        (if truthy_and (savedModel r) (isAgentModel_in c (selectedAgent r)) then
           (case savedModel r of None \<Rightarrow> q | Some m \<Rightarrow> q\<lparr>selectedModel := m\<rparr>)
         else
           (case cat_defaults c (selectedAgent r) of
              None \<Rightarrow> q
            | Some defaultModel \<Rightarrow>
                if truthy defaultModel then q\<lparr>selectedModel := defaultModel\<rparr> else q))
      else q)"






text \<open>
  The model of an agent: the URL parameter if it is a model of the agent, else the
  persisted model of the agent if it is still one of its models, else the default
  model of the agent. Without a URL parameter (\<open>None\<close>) this is the rule of an agent
  change: the persisted model if it is still a model of the agent, else the default.
\<close>

definition spec_resolveModel_in ::
  "catalog \<Rightarrow> js_string \<Rightarrow> js_string option \<Rightarrow> js_string option \<Rightarrow> js_string option" where
  "spec_resolveModel_in c agent url persisted =
     (case url of
        Some m \<Rightarrow> if isAgentModel_in c agent m then Some m
                  else (case persisted of
                          Some p \<Rightarrow> if isAgentModel_in c agent p then Some p
                                    else cat_defaults c agent
                        | None \<Rightarrow> cat_defaults c agent)
      | None \<Rightarrow> (case persisted of
                   Some p \<Rightarrow> if isAgentModel_in c agent p then Some p
                             else cat_defaults c agent
                 | None \<Rightarrow> cat_defaults c agent))"


section \<open>Sample inputs\<close>

definition sample_repo :: GitHubRepo where
  "sample_repo =
     \<lparr>name = lit ''app'', full_name = lit ''acme/app'', description = lit ''An app'',
      is_private = False, clone_url = lit ''https://github.com/acme/app.git'',
      language = lit ''TypeScript''\<rparr>"

definition sample_inputs :: task_form_inputs where
  "sample_inputs =
     \<lparr>urlAgent = None, urlModel = None, prompt = lit '' fix the bug '',
      savedAgent = None, savedModels = (\<lambda>a. None),
      githubRepos = (\<lambda>ow. if ow = lit ''acme'' then Some [sample_repo] else None),
      selectedOwner = lit ''acme'', selectedRepo = lit ''app'',
      initialInstallDependencies = False, initialMaxDuration = 300,
      initialKeepAlive = False\<rparr>"

definition sample_check :: key_check where
  "sample_check = \<lparr>hasKey = False, provider = lit ''aigateway'', agentName = lit ''Codex''\<rparr>"

definition sample_form :: form where
  "sample_form =
     \<lparr>urlAgent = None, urlModel = None, prompt = lit '' fix the bug '',
      savedAgent = Some (lit ''codex''), savedModels = (\<lambda>a. None),
      githubRepos = (\<lambda>ow. if ow = lit ''acme'' then Some [sample_repo] else None),
      selectedOwner = lit ''acme'', selectedRepo = lit ''app'',
      initialInstallDependencies = False, initialMaxDuration = 300,
      initialKeepAlive = False,
      selectedAgent = lit ''codex'', selectedModel = lit ''gpt-5.1-codex'',
      installDependencies = False, maxDuration = 300, keepAlive = False\<rparr>"

definition sample_migrate_world :: migrate_world where
  "sample_migrate_world =
     \<lparr>POSTGRES_URL = Some ''postgres://localhost/app'',
      migrate_throws = Some ''relation already exists'', end_throws = None\<rparr>"

definition sample_reset_world :: reset_world where
  "sample_reset_world =
     \<lparr>reset_POSTGRES_URL = Some ''postgres://localhost/app'',
      reset_db = \<lparr>schemas = {''public'', ''drizzle''}, tables = {''users'', ''tasks'', ''notes''}\<rparr>,
      query_throws = (\<lambda>i. None), reset_end_throws = None\<rparr>"

section \<open>Facts about strings\<close>

lemma startsWith_prefix: "startsWith s t \<longleftrightarrow> prefix t s"
  by (induction s t rule: startsWith.induct) auto

lemma js_includes_sublist: "js_includes s t \<longleftrightarrow> sublist t s"
  by (induction s) (simp_all add: startsWith_prefix sublist_Cons_right)

lemma dropWhile_all: "(\<forall>x \<in> set (dropWhile P s). P x) \<longleftrightarrow> (\<forall>x \<in> set s. P x)"
  by (induction s) auto

lemma trim_empty_iff: "trim s = [] \<longleftrightarrow> (\<forall>c \<in> set s. isWhiteSpace c)"
  by (simp add: trim_def dropWhile_eq_Nil_conv dropWhile_all)

section \<open>Facts about the catalog\<close>

lemma isCodingAgent_iff:
  "isCodingAgent a \<longleftrightarrow> a = lit ''codex'' \<or> a = lit ''claude'' \<or> a = lit ''opencode''"
  by (auto simp: isCodingAgent_def CODING_AGENTS_def)

lemma isAgentModel_iff:
  "isAgentModel a m \<longleftrightarrow>
     a = lit ''codex'' \<and> m = lit ''gpt-5.1-codex'' \<or>
     a = lit ''claude'' \<and> m = lit ''claude-sonnet-4-5-20250929'' \<or>
     a = lit ''opencode'' \<and> m = lit ''gemini-3-pro-preview''"
  by (auto simp: isAgentModel_def AGENT_MODELS_def lit_def)

lemma isAgentModel_default: "isAgentModel a m \<longleftrightarrow> DEFAULT_MODELS a = Some m"
  by (auto simp: isAgentModel_iff DEFAULT_MODELS_def lit_def)

lemma isCodingAgent_default: "isCodingAgent a \<longleftrightarrow> (\<exists>m. DEFAULT_MODELS a = Some m)"
  by (auto simp: isCodingAgent_iff DEFAULT_MODELS_def lit_def)

lemma isCodingAgent_truthy: "isCodingAgent a \<Longrightarrow> truthy a"
  by (auto simp: isCodingAgent_iff truthy_def lit_def)

lemma isAgentModel_truthy: "isAgentModel a m \<Longrightarrow> truthy m"
  by (auto simp: isAgentModel_iff truthy_def lit_def)

lemma spec_resolveAgent_known: "isCodingAgent (spec_resolveAgent u p)"
  by (auto simp: spec_resolveAgent_def isCodingAgent_iff split: option.splits)

lemma providerName_known:
  "providerName (lit ''anthropic'') = JsString (lit ''Anthropic'')"
  "providerName (lit ''openai'') = JsString (lit ''OpenAI'')"
  "providerName (lit ''cursor'') = JsString (lit ''Cursor'')"
  "providerName (lit ''gemini'') = JsString (lit ''Gemini'')"
  "providerName (lit ''aigateway'') = JsString (lit ''AI Gateway'')"
  by (simp_all add: providerName_def providerNames_def truthy_def lit_def)

section \<open>Facts about the effects on agent and model\<close>

lemma modelEffect_selectedAgent [simp]: "selectedAgent (modelEffect r q) = selectedAgent q"
  by (simp add: modelEffect_def split: option.splits)

lemma modelEffect_savedModels [simp]: "savedModels (modelEffect r q) = savedModels q"
  by (simp add: modelEffect_def split: option.splits)

lemma modelEffect_fields [simp]:
  "prompt (modelEffect r q) = prompt q"
  "savedAgent (modelEffect r q) = savedAgent q"
  "githubRepos (modelEffect r q) = githubRepos q"
  "selectedOwner (modelEffect r q) = selectedOwner q"
  "selectedRepo (modelEffect r q) = selectedRepo q"
  "installDependencies (modelEffect r q) = installDependencies q"
  "maxDuration (modelEffect r q) = maxDuration q"
  "keepAlive (modelEffect r q) = keepAlive q"
  by (simp_all add: modelEffect_def split: option.splits)

lemma modelEffect_selectedModel:
  assumes "isCodingAgent (selectedAgent r)"
  shows "DEFAULT_MODELS (selectedAgent r) = Some (selectedModel (modelEffect r q))"
proof -
  from assms obtain d where d: "DEFAULT_MODELS (selectedAgent r) = Some d"
    by (auto simp: isCodingAgent_default)
  then have td: "truthy d"
    by (simp add: isAgentModel_truthy isAgentModel_default [symmetric])
  have ta: "truthy (selectedAgent r)"
    using assms by (rule isCodingAgent_truthy)
  show ?thesis
  proof (cases "truthy_and (savedModel r) (isAgentModel (selectedAgent r))")
    case True
    then obtain m where "savedModel r = Some m" "isAgentModel (selectedAgent r) m"
      by (auto simp: truthy_and_def split: option.splits)
    with True ta d show ?thesis
      by (simp add: modelEffect_def isAgentModel_default)
  next
    case False
    with ta d td show ?thesis
      by (simp add: modelEffect_def)
  qed
qed

lemma modelEffect_consistent:
  "isCodingAgent (selectedAgent r) \<Longrightarrow> isAgentModel (selectedAgent r) (selectedModel (modelEffect r q))"
  by (simp add: isAgentModel_default modelEffect_selectedModel)

lemma rerender_selectedAgent [simp]: "selectedAgent (rerender r r') = selectedAgent r'"
  by (simp add: rerender_def)

lemma rerender_fields [simp]:
  "prompt (rerender r r') = prompt r'"
  "savedAgent (rerender r r') = savedAgent r'"
  "savedModels (rerender r r') = savedModels r'"
  "githubRepos (rerender r r') = githubRepos r'"
  "selectedOwner (rerender r r') = selectedOwner r'"
  "selectedRepo (rerender r r') = selectedRepo r'"
  "installDependencies (rerender r r') = installDependencies r'"
  "maxDuration (rerender r r') = maxDuration r'"
  "keepAlive (rerender r r') = keepAlive r'"
  by (simp_all add: rerender_def)

lemma rerender_consistent:
  assumes "isCodingAgent (selectedAgent r')"
    and "\<not> modelEffectDepsChanged r r' \<Longrightarrow> isAgentModel (selectedAgent r') (selectedModel r')"
  shows "isAgentModel (selectedAgent (rerender r r')) (selectedModel (rerender r r'))"
  using assms by (simp add: rerender_def modelEffect_consistent)

lemma initialState_inputs [simp]:
  "urlAgent (initialState i) = urlAgent i"
  "urlModel (initialState i) = urlModel i"
  "savedAgent (initialState i) = savedAgent i"
  "savedModels (initialState i) = savedModels i"
  by (simp_all add: initialState_def)

lemma initialState_agent:
  "selectedAgent (initialState i) = spec_resolveAgent None (savedAgent i)"
  by (auto simp: initialState_def spec_resolveAgent_def defaultAgent_def
        dest: isCodingAgent_truthy split: option.splits)

lemma initialState_selectedAgent:
  "isCodingAgent (selectedAgent (initialState i))"
  by (auto simp: initialState_def defaultAgent_def isCodingAgent_iff split: option.splits)

lemma mountEffect_agent:
  "selectedAgent (mountEffect r q) =
     (case urlAgent r of
        Some a \<Rightarrow> if isCodingAgent a then a
                  else (case savedAgent r of
                          Some b \<Rightarrow> if isCodingAgent b then b else selectedAgent q
                        | None \<Rightarrow> selectedAgent q)
      | None \<Rightarrow> (case savedAgent r of
                   Some b \<Rightarrow> if isCodingAgent b then b else selectedAgent q
                 | None \<Rightarrow> selectedAgent q))"
  by (auto simp: mountEffect_def truthy_and_def Let_def
        dest: isCodingAgent_truthy split: option.splits)

lemma mountEffect_selectedAgent:
  "selectedAgent (mountEffect (initialState i) (initialState i)) =
     spec_resolveAgent (urlAgent i) (savedAgent i)"
  by (simp add: mountEffect_agent initialState_agent spec_resolveAgent_def
        split: option.splits)

lemma mount_selectedAgent:
  "selectedAgent (mount i) = spec_resolveAgent (urlAgent i) (savedAgent i)"
  by (simp add: mount_def Let_def mountEffect_selectedAgent)

lemma mount_consistent: "isAgentModel (selectedAgent (mount i)) (selectedModel (mount i))"
proof -
  define r0 where "r0 = initialState i"
  define q where "q = modelEffect r0 (mountEffect r0 r0)"
  have m: "mount i = rerender r0 q"
    by (simp add: mount_def r0_def q_def Let_def)
  have agent_q: "selectedAgent q = spec_resolveAgent (urlAgent i) (savedAgent i)"
    by (simp add: q_def r0_def mountEffect_selectedAgent)
  then have known: "isCodingAgent (selectedAgent q)"
    by (simp add: spec_resolveAgent_known)
  have "isAgentModel (selectedAgent q) (selectedModel q)" if "\<not> modelEffectDepsChanged r0 q"
  proof -
    from that have same: "selectedAgent q = selectedAgent r0"
      by (simp add: modelEffectDepsChanged_def)
    have "isAgentModel (selectedAgent r0) (selectedModel (modelEffect r0 (mountEffect r0 r0)))"
      by (rule modelEffect_consistent) (simp add: r0_def initialState_selectedAgent)
    with same show ?thesis by (simp add: q_def)
  qed
  with known show ?thesis
    unfolding m by (rule rerender_consistent)
qed

lemma onAgentChange_agent [simp]: "selectedAgent (onAgentChange v r) = v"
  by (simp add: onAgentChange_def)

lemma onAgentChange_fields [simp]:
  "prompt (onAgentChange v r) = prompt r"
  "selectedOwner (onAgentChange v r) = selectedOwner r"
  "selectedRepo (onAgentChange v r) = selectedRepo r"
  "githubRepos (onAgentChange v r) = githubRepos r"
  "installDependencies (onAgentChange v r) = installDependencies r"
  "maxDuration (onAgentChange v r) = maxDuration r"
  "keepAlive (onAgentChange v r) = keepAlive r"
  by (simp_all add: onAgentChange_def)

lemma onAgentChange_model:
  assumes "isCodingAgent v" and "v \<noteq> selectedAgent r"
  shows "DEFAULT_MODELS v = Some (selectedModel (onAgentChange v r))"
proof -
  define r' where "r' = r\<lparr>selectedAgent := v, savedAgent := Some v\<rparr>"
  have "modelEffectDepsChanged r r'"
    using assms(2) by (simp add: modelEffectDepsChanged_def r'_def)
  then have "onAgentChange v r = modelEffect r' r'"
    by (simp add: onAgentChange_def rerender_def r'_def)
  moreover have "isCodingAgent (selectedAgent r')"
    using assms(1) by (simp add: r'_def)
  ultimately show ?thesis
    using modelEffect_selectedModel [of r' r'] by (simp add: r'_def)
qed

lemma onModelChange_fields [simp]:
  "selectedAgent (onModelChange v r) = selectedAgent r"
  "prompt (onModelChange v r) = prompt r"
  "selectedOwner (onModelChange v r) = selectedOwner r"
  "selectedRepo (onModelChange v r) = selectedRepo r"
  "githubRepos (onModelChange v r) = githubRepos r"
  "installDependencies (onModelChange v r) = installDependencies r"
  "maxDuration (onModelChange v r) = maxDuration r"
  "keepAlive (onModelChange v r) = keepAlive r"
  by (simp_all add: onModelChange_def)

lemma onModelChange_model:
  assumes "isAgentModel (selectedAgent r) v"
  shows "selectedModel (onModelChange v r) = v"
proof -
  define r' where
    "r' = r\<lparr>selectedModel := v, savedModels := (savedModels r)(selectedAgent r := Some v)\<rparr>"
  have saved: "savedModel r' = Some v"
    by (simp add: savedModel_def r'_def)
  have "truthy_and (savedModel r') (isAgentModel (selectedAgent r'))"
    using assms saved by (simp add: truthy_and_def isAgentModel_truthy r'_def)
  then have "selectedModel (modelEffect r' r') = v"
    using saved by (simp add: modelEffect_def r'_def)
  then have "selectedModel (rerender r r') = v"
    by (simp add: rerender_def r'_def)
  then show ?thesis
    by (simp add: onModelChange_def r'_def)
qed

section \<open>Facts about the effects over any catalog\<close>


lemma isAgentModel_in_source: "isAgentModel_in source_catalog = isAgentModel"
  by (simp add: fun_eq_iff isAgentModel_in_def isAgentModel_def source_catalog_def)

lemma cat_defaults_source: "cat_defaults source_catalog = DEFAULT_MODELS"
  by (simp add: source_catalog_def)











lemma modelEffect_in_fields [simp]:
  "selectedAgent (modelEffect_in c r q) = selectedAgent q"
  "savedModels (modelEffect_in c r q) = savedModels q"
  "savedAgent (modelEffect_in c r q) = savedAgent q"
  by (simp_all add: modelEffect_in_def split: option.splits)


lemma initialState_in_inputs [simp]:
  "urlAgent (initialState_in c i) = urlAgent i"
  "urlModel (initialState_in c i) = urlModel i"
  "savedAgent (initialState_in c i) = savedAgent i"
  "savedModels (initialState_in c i) = savedModels i"
  by (simp_all add: initialState_in_def)



lemma mountEffect_in_savedModels [simp]:
  "savedModels (mountEffect_in c r q) = savedModels q"
  by (simp add: mountEffect_in_def Let_def split: option.splits)






text \<open>
  In the catalog of the source every agent has one model, its default: there the model
  after mounting is also what the precedence with the URL parameter first gives.
\<close>

lemma mount_model_source_catalog:
  "Some (selectedModel (mount i)) =
     spec_resolveModel_in source_catalog (selectedAgent (mount i)) (urlModel i)
       (savedModels i (selectedAgent (mount i)))"
proof -
  have "spec_resolveModel_in source_catalog a u p = DEFAULT_MODELS a" for a u p
    by (simp add: spec_resolveModel_in_def isAgentModel_in_source cat_defaults_source
          isAgentModel_default split: option.splits)
  moreover have "DEFAULT_MODELS (selectedAgent (mount i)) = Some (selectedModel (mount i))"
    using mount_consistent [of i] by (simp add: isAgentModel_default)
  ultimately show ?thesis by simp
qed

section \<open>Facts about the repository effect and the lookup of the repository\<close>


lemma repos_setRepos [simp]: "repos (setRepos v r) = v"
  by (simp add: repos_def setRepos_def)

lemma fetchReposEffect_uncached:
  assumes "truthy (selectedOwner r)" and "repos r = None \<or> repos r = Some []"
  shows "fetchReposEffect r response =
           (let request = Fetch (lit ''/api/github/repos?owner='' @ selectedOwner r) in
            case response of
              ReposOk reposList \<Rightarrow> (setRepos (Some reposList) r, [request])
            | ReposNotOk \<Rightarrow> (r, [request])
            | ReposThrows \<Rightarrow> (r, [request, ConsoleError]))"
  using assms by (auto simp: fetchReposEffect_def)

lemma fetchReposEffect_selection [simp]:
  "selectedAgent (fst (fetchReposEffect r response)) = selectedAgent r"
  "selectedModel (fst (fetchReposEffect r response)) = selectedModel r"
  by (simp_all add: fetchReposEffect_def setRepos_def Let_def
        split: option.splits list.splits repos_response.splits)

lemma find_name_None: "n \<notin> name ` set rs \<Longrightarrow> find (\<lambda>repo. name repo = n) rs = None"
  by (induction rs) auto

lemma fetchReposRuns_empty_listing:
  assumes "truthy (selectedOwner r)" and "repos r = None \<or> repos r = Some []"
  shows "fetchReposRuns n r (\<lambda>k. ReposOk []) =
           replicate n (Fetch (lit ''/api/github/repos?owner='' @ selectedOwner r))"
  using assms
proof (induction n arbitrary: r)
  case 0
  show ?case by simp
next
  case (Suc n)
  define r' where "r' = fst (fetchReposEffect r (ReposOk []))"
  have e: "fetchReposEffect r (ReposOk []) =
      (setRepos (Some []) r, [Fetch (lit ''/api/github/repos?owner='' @ selectedOwner r)])"
    using Suc.prems by (simp add: fetchReposEffect_uncached)
  have c: "reposChanged r (ReposOk [])"
    using Suc.prems by (auto simp: reposChanged_def)
  have "selectedOwner r' = selectedOwner r" "repos r' = Some []"
    by (simp_all add: r'_def e) (simp add: setRepos_def)
  then have "fetchReposRuns n r' (\<lambda>k. ReposOk []) =
      replicate n (Fetch (lit ''/api/github/repos?owner='' @ selectedOwner r))"
    using Suc.IH [of r'] Suc.prems(1) by simp
  with e c show ?case
    by (simp add: r'_def)
qed

section \<open>Facts about the reset script\<close>

lemma run_queries_events:
  "\<exists>k. fst (run_queries t i qs db) = map Query (take k qs)"
proof (induction qs arbitrary: i db)
  case Nil
  show ?case by simp
next
  case (Cons q qs)
  show ?case
  proof (cases "t i")
    case None
    from Cons [of "Suc i" "exec_stmt q db"] obtain k where
      "fst (run_queries t (Suc i) qs (exec_stmt q db)) = map Query (take k qs)" ..
    with None have "fst (run_queries t i (q # qs) db) = map Query (take (Suc k) (q # qs))"
      by (simp add: case_prod_unfold)
    then show ?thesis ..
  next
    case (Some error)
    then have "fst (run_queries t i (q # qs) db) = map Query (take 1 (q # qs))"
      by simp
    then show ?thesis ..
  qed
qed

lemma run_queries_ok:
  "(\<And>j. t j = None) \<Longrightarrow>
     run_queries t i qs db = (map Query qs, Resolved (fold exec_stmt qs db))"
  by (induction qs arbitrary: i db) simp_all

lemma issued_queries_map [simp]: "issued_queries (map Query qs) = qs"
  by (induction qs) simp_all

lemma issued_queries_append [simp]:
  "issued_queries (xs @ ys) = issued_queries xs @ issued_queries ys"
  by (induction xs rule: issued_queries.induct) simp_all

lemma fold_exec_tables:
  "tables (fold exec_stmt qs db) = tables db - set (dropped_tables qs)"
  by (induction qs arbitrary: db rule: dropped_tables.induct) auto

lemma fold_exec_schemas:
  "schemas (fold exec_stmt qs db) = schemas db - set (dropped_schemas qs)"
  by (induction qs arbitrary: db rule: dropped_schemas.induct) auto

lemma reset_statements_shape:
  "reset_statements =
     DropSchemaIfExistsCascade ''drizzle''
     # map DropTableIfExistsCascade
         [''anonymous_chat_logs'', ''chat_ownerships'', ''accounts'', ''connectors'', ''keys'',
          ''settings'', ''task_messages'', ''tasks'', ''users'', ''__drizzle_migrations'']"
  by (simp add: reset_statements_def)

lemma dropped_tables_reset:
  "dropped_tables reset_statements =
     [''anonymous_chat_logs'', ''chat_ownerships'', ''accounts'', ''connectors'', ''keys'',
      ''settings'', ''task_messages'', ''tasks'', ''users'', ''__drizzle_migrations'']"
  by (simp add: reset_statements_def)

lemma dropped_schemas_reset: "dropped_schemas reset_statements = [''drizzle'']"
  by (simp add: reset_statements_def)

lemma resetDatabase_events:
  assumes "reset_POSTGRES_URL w = Some url" and "url \<noteq> []"
  shows "\<exists>k. fst (resetDatabase w) =
               [ConsoleLog, Postgres url 1, ConsoleLog] @ map Query (take k reset_statements)
               @ [case snd (run_queries (query_throws w) 0 reset_statements (reset_db w)) of
                    Resolved db \<Rightarrow> ConsoleLog | Rejected error \<Rightarrow> ConsoleErr]
               @ [EndConnection]"
proof -
  obtain queries result where rq:
    "run_queries (query_throws w) 0 reset_statements (reset_db w) = (queries, result)"
    by (cases "run_queries (query_throws w) 0 reset_statements (reset_db w)")
  from run_queries_events [of "query_throws w" 0 reset_statements "reset_db w"] rq
  obtain k where "queries = map Query (take k reset_statements)"
    by auto
  with assms rq have "fst (resetDatabase w) =
               [ConsoleLog, Postgres url 1, ConsoleLog] @ map Query (take k reset_statements)
               @ [case snd (run_queries (query_throws w) 0 reset_statements (reset_db w)) of
                    Resolved db \<Rightarrow> ConsoleLog | Rejected error \<Rightarrow> ConsoleErr]
               @ [EndConnection]"
    by (simp add: resetDatabase_def missing_def split: outcome.splits)
  then show ?thesis ..
qed

lemma count_list_map_Query [simp]: "count_list (map Query qs) EndConnection = 0"
  by (induction qs) simp_all

lemma filter_isPostgres_map_Query [simp]: "filter isPostgres (map Query qs) = []"
  by (induction qs) (simp_all add: isPostgres_def)

section \<open>Evaluating the samples\<close>

lemmas sample_eval = sample_form_def sample_inputs_def sample_repo_def sample_check_def
  truthy_def trim_def isWhiteSpace_def lit_def repos_def

section \<open>Submitting the form\<close>

text \<open>
  Claim C1, amended by the condition on the prompt. For every submit with a prompt that
  is not empty after trimming, where an owner and a repository are selected and the
  cached list has a repository of the selected name: the form issues one request to the
  key check, whatever the answer; if the answer says that the key is absent, the form
  shows the error built from the name of the provider and does nothing else, so
  \<open>onSubmit\<close> is not invoked; if the request fails, the payload goes to
  \<open>onSubmit\<close> all the same, with the clone URL of the repository. For a provider of
  the table the title of the error is its display name followed by
  \<open>API key required\<close>.
\<close>

theorem submit_with_matched_repository:
  assumes "truthy (trim (prompt f))"
    and "truthy (selectedOwner f)" and "truthy (selectedRepo f)"
    and "repos f = Some rs" and "find (\<lambda>repo. name repo = selectedRepo f) rs = Some repo"
  shows "filter isFetch (handleSubmit f response) =
           [Fetch (lit ''/api/api-keys/check?agent='' @ selectedAgent f
                   @ lit ''&model='' @ selectedModel f)] \<and>
         (\<not> hasKey d \<longrightarrow>
            handleSubmit f (CheckData d) =
              [Fetch (lit ''/api/api-keys/check?agent='' @ selectedAgent f
                      @ lit ''&model='' @ selectedModel f),
               ToastError
                 [providerName (provider d), JsString (lit '' API key required'')]
                 [JsString (lit ''Please add your ''), providerName (provider d),
                  JsString (lit '' API key in the user menu to use the ''),
                  JsString (agentName d), JsString (lit '' agent with this model.'')]] \<and>
            filter isOnSubmit (handleSubmit f (CheckData d)) = []) \<and>
         (\<not> hasKey d \<and> (provider d, n) \<in> set providerNames \<longrightarrow>
            (\<exists>title description.
               handleSubmit f (CheckData d) =
                 [Fetch (lit ''/api/api-keys/check?agent='' @ selectedAgent f
                         @ lit ''&model='' @ selectedModel f),
                  ToastError title description] \<and>
               template_text title = Some (n @ lit '' API key required''))) \<and>
         handleSubmit f CheckThrows =
           [Fetch (lit ''/api/api-keys/check?agent='' @ selectedAgent f
                   @ lit ''&model='' @ selectedModel f),
            ConsoleError,
            OnSubmit \<lparr>data_prompt = trim (prompt f), data_repoUrl = clone_url repo,
              data_selectedAgent = selectedAgent f, data_selectedModel = selectedModel f,
              data_installDependencies = installDependencies f,
              data_maxDuration = maxDuration f, data_keepAlive = keepAlive f\<rparr>] \<and>
         providerName (lit ''anthropic'') = JsString (lit ''Anthropic'') \<and>
         providerName (lit ''openai'') = JsString (lit ''OpenAI'') \<and>
         providerName (lit ''cursor'') = JsString (lit ''Cursor'') \<and>
         providerName (lit ''gemini'') = JsString (lit ''Gemini'') \<and>
         providerName (lit ''aigateway'') = JsString (lit ''AI Gateway'') \<and>
         providerName (lit ''constructor'') = Inherited (lit ''constructor'')"
proof -
  have url: "(if truthy (clone_url repo) then clone_url repo else []) = clone_url repo"
    by (simp add: truthy_def)
  have 1: "filter isFetch (handleSubmit f response) =
           [Fetch (lit ''/api/api-keys/check?agent='' @ selectedAgent f
                   @ lit ''&model='' @ selectedModel f)]"
    using assms
    by (simp add: handleSubmit_def isFetch_def keyRequiredToast_def Let_def
          split: check_response.splits)
  have 2: "handleSubmit f (CheckData d) =
              [Fetch (lit ''/api/api-keys/check?agent='' @ selectedAgent f
                      @ lit ''&model='' @ selectedModel f),
               ToastError
                 [providerName (provider d), JsString (lit '' API key required'')]
                 [JsString (lit ''Please add your ''), providerName (provider d),
                  JsString (lit '' API key in the user menu to use the ''),
                  JsString (agentName d), JsString (lit '' agent with this model.'')]] \<and>
            filter isOnSubmit (handleSubmit f (CheckData d)) = []" if "\<not> hasKey d"
    using assms that
    by (simp add: handleSubmit_def keyRequiredToast_def isOnSubmit_def Let_def)
  have 3: "\<exists>title description.
               handleSubmit f (CheckData d) =
                 [Fetch (lit ''/api/api-keys/check?agent='' @ selectedAgent f
                         @ lit ''&model='' @ selectedModel f),
                  ToastError title description] \<and>
               template_text title = Some (n @ lit '' API key required'')"
    if "\<not> hasKey d" "(provider d, n) \<in> set providerNames"
  proof -
    from that(2) have "providerName (provider d) = JsString n"
      by (auto simp: providerNames_def providerName_known)
    with 2 [OF that(1)] show ?thesis
      by simp
  qed
  have 4: "handleSubmit f CheckThrows =
           [Fetch (lit ''/api/api-keys/check?agent='' @ selectedAgent f
                   @ lit ''&model='' @ selectedModel f),
            ConsoleError,
            OnSubmit \<lparr>data_prompt = trim (prompt f), data_repoUrl = clone_url repo,
              data_selectedAgent = selectedAgent f, data_selectedModel = selectedModel f,
              data_installDependencies = installDependencies f,
              data_maxDuration = maxDuration f, data_keepAlive = keepAlive f\<rparr>]"
    using assms by (simp add: handleSubmit_def submitData_def Let_def url)
  have 5: "providerName (lit ''constructor'') = Inherited (lit ''constructor'')"
    by (simp add: providerName_def providerNames_def objectPrototypeKeys_def lit_def)
  from 1 2 3 4 5 providerName_known show ?thesis
    by blast
qed

theorem submit_with_matched_repository_witness:
  "handleSubmit sample_form (CheckData sample_check) =
     [Fetch (lit ''/api/api-keys/check?agent=codex&model=gpt-5.1-codex''),
      ToastError
        [JsString (lit ''AI Gateway''), JsString (lit '' API key required'')]
        [JsString (lit ''Please add your ''), JsString (lit ''AI Gateway''),
         JsString (lit '' API key in the user menu to use the ''), JsString (lit ''Codex''),
         JsString (lit '' agent with this model.'')]] \<and>
   template_text [JsString (lit ''AI Gateway''), JsString (lit '' API key required'')]
     = Some (lit ''AI Gateway API key required'') \<and>
   handleSubmit sample_form CheckThrows =
     [Fetch (lit ''/api/api-keys/check?agent=codex&model=gpt-5.1-codex''),
      ConsoleError,
      OnSubmit \<lparr>data_prompt = lit ''fix the bug'',
        data_repoUrl = lit ''https://github.com/acme/app.git'',
        data_selectedAgent = lit ''codex'', data_selectedModel = lit ''gpt-5.1-codex'',
        data_installDependencies = False, data_maxDuration = 300, data_keepAlive = False\<rparr>]"
  using submit_with_matched_repository [of sample_form "[sample_repo]" sample_repo
      CheckThrows sample_check "lit ''AI Gateway''"]
  by (simp add: providerName_def providerNames_def sample_eval)

text \<open>
  Claim C1 as stated has no condition on the prompt. With an empty prompt, an owner and
  a repository selected and the repository in the cached list, the form issues no
  request: it does nothing.
\<close>

theorem empty_prompt_matched_repository:
  "truthy (selectedOwner (sample_form\<lparr>prompt := []\<rparr>)) \<and>
   truthy (selectedRepo (sample_form\<lparr>prompt := []\<rparr>)) \<and>
   repos (sample_form\<lparr>prompt := []\<rparr>) = Some [sample_repo] \<and>
   name sample_repo = selectedRepo (sample_form\<lparr>prompt := []\<rparr>) \<and>
   handleSubmit (sample_form\<lparr>prompt := []\<rparr>) (CheckData sample_check) = []"
  by (simp add: handleSubmit_def sample_eval)

text \<open>
  Claim C2. Whatever the other fields are and whatever the key check would answer,
  submitting a prompt that is empty after trimming does nothing: no \<open>onSubmit\<close>, no
  request, no error shown. By \<open>trim_empty_iff\<close> these are the prompts made of white
  space only, the empty prompt among them.
\<close>

theorem empty_prompt_submit_is_silent:
  "trim (prompt f) = [] \<Longrightarrow> handleSubmit f response = []"
  by (simp add: handleSubmit_def truthy_def)

theorem empty_prompt_submit_is_silent_witness:
  "trim (prompt (sample_form\<lparr>prompt := lit ''  '' @ [0x00A0, 0x2003, 0x000A]\<rparr>)) = [] \<and>
   handleSubmit (sample_form\<lparr>prompt := lit ''  '' @ [0x00A0, 0x2003, 0x000A]\<rparr>)
     (CheckData sample_check) = []"
proof -
  have h: "trim (prompt (sample_form\<lparr>prompt := lit ''  '' @ [0x00A0, 0x2003, 0x000A]\<rparr>)) = []"
    by (simp add: trim_def isWhiteSpace_def lit_def)
  from empty_prompt_submit_is_silent [OF h] h show ?thesis
    by simp
qed

text \<open>
  Claim C3. For every agent \<open>A\<close> of the catalog and every model \<open>M\<close> of \<open>A\<close>:
  selecting \<open>A\<close>, then \<open>M\<close>, and submitting a prompt that is not empty after
  trimming while the owner or the repository is not selected invokes \<open>onSubmit\<close>
  once and does nothing else (no key check), with the trimmed prompt, the empty
  \<open>repoUrl\<close>, agent \<open>A\<close> and model \<open>M\<close>.
\<close>

theorem submit_without_repository:
  assumes "isCodingAgent A" and "isAgentModel A M"
    and "truthy (trim (prompt f))"
    and "\<not> truthy (selectedOwner f) \<or> \<not> truthy (selectedRepo f)"
  shows "handleSubmit (onModelChange M (onAgentChange A f)) response =
           [OnSubmit \<lparr>data_prompt = trim (prompt f), data_repoUrl = [],
              data_selectedAgent = A, data_selectedModel = M,
              data_installDependencies = installDependencies f,
              data_maxDuration = maxDuration f, data_keepAlive = keepAlive f\<rparr>]"
proof -
  have "selectedModel (onModelChange M (onAgentChange A f)) = M"
    using assms(2) by (simp add: onModelChange_model)
  with assms(3,4) show ?thesis
    by (auto simp: handleSubmit_def submitData_def)
qed

theorem submit_without_repository_witness:
  "handleSubmit
     (onModelChange (lit ''claude-sonnet-4-5-20250929'')
        (onAgentChange (lit ''claude'') (sample_form\<lparr>selectedRepo := []\<rparr>)))
     CheckThrows =
   [OnSubmit \<lparr>data_prompt = lit ''fix the bug'', data_repoUrl = [],
      data_selectedAgent = lit ''claude'',
      data_selectedModel = lit ''claude-sonnet-4-5-20250929'',
      data_installDependencies = False, data_maxDuration = 300, data_keepAlive = False\<rparr>]"
  using submit_without_repository [of "lit ''claude''" "lit ''claude-sonnet-4-5-20250929''"
      "sample_form\<lparr>selectedRepo := []\<rparr>" CheckThrows]
  by (simp add: isCodingAgent_iff isAgentModel_iff sample_eval)

text \<open>
  Claim C10, amended by trimming. When an owner and a repository are selected, the
  cached list has no repository of that name (it is null, empty, or holds other names)
  and the prompt is not empty after trimming, submitting invokes \<open>onSubmit\<close> once
  and does nothing else (no key check), with the empty \<open>repoUrl\<close> and the other
  fields as selected.
\<close>

theorem submit_with_unmatched_repository:
  assumes "truthy (trim (prompt f))"
    and "truthy (selectedOwner f)" and "truthy (selectedRepo f)"
    and "repos f = None \<or> (\<exists>rs. repos f = Some rs \<and> selectedRepo f \<notin> name ` set rs)"
  shows "handleSubmit f response =
           [OnSubmit \<lparr>data_prompt = trim (prompt f), data_repoUrl = [],
              data_selectedAgent = selectedAgent f, data_selectedModel = selectedModel f,
              data_installDependencies = installDependencies f,
              data_maxDuration = maxDuration f, data_keepAlive = keepAlive f\<rparr>]"
proof -
  have "(case repos f of None \<Rightarrow> None
         | Some rs \<Rightarrow> find (\<lambda>repo. name repo = selectedRepo f) rs) = None"
    using assms(4) by (auto simp: find_name_None)
  with assms(1-3) show ?thesis
    by (simp add: handleSubmit_def submitData_def)
qed

theorem submit_with_unmatched_repository_witness:
  "handleSubmit (sample_form\<lparr>selectedRepo := lit ''other''\<rparr>) CheckThrows =
     [OnSubmit \<lparr>data_prompt = lit ''fix the bug'', data_repoUrl = [],
        data_selectedAgent = lit ''codex'', data_selectedModel = lit ''gpt-5.1-codex'',
        data_installDependencies = False, data_maxDuration = 300, data_keepAlive = False\<rparr>] \<and>
   handleSubmit (sample_form\<lparr>selectedOwner := lit ''nobody''\<rparr>) CheckThrows =
     [OnSubmit \<lparr>data_prompt = lit ''fix the bug'', data_repoUrl = [],
        data_selectedAgent = lit ''codex'', data_selectedModel = lit ''gpt-5.1-codex'',
        data_installDependencies = False, data_maxDuration = 300, data_keepAlive = False\<rparr>]"
  using submit_with_unmatched_repository [of "sample_form\<lparr>selectedRepo := lit ''other''\<rparr>" CheckThrows]
    submit_with_unmatched_repository [of "sample_form\<lparr>selectedOwner := lit ''nobody''\<rparr>" CheckThrows]
  by (simp add: sample_eval)

text \<open>
  Claim C10 as stated asks for a non-empty prompt only. The prompt of one space is not
  empty; with it, an owner and a repository selected and no repository of that name in
  the cached list, \<open>onSubmit\<close> is not invoked.
\<close>

theorem whitespace_prompt_unmatched_repository:
  "prompt (sample_form\<lparr>prompt := lit '' '', selectedRepo := lit ''other''\<rparr>) \<noteq> [] \<and>
   truthy (selectedOwner (sample_form\<lparr>prompt := lit '' '', selectedRepo := lit ''other''\<rparr>)) \<and>
   truthy (selectedRepo (sample_form\<lparr>prompt := lit '' '', selectedRepo := lit ''other''\<rparr>)) \<and>
   repos (sample_form\<lparr>prompt := lit '' '', selectedRepo := lit ''other''\<rparr>) = Some [sample_repo] \<and>
   name sample_repo \<noteq> lit ''other'' \<and>
   handleSubmit (sample_form\<lparr>prompt := lit '' '', selectedRepo := lit ''other''\<rparr>) CheckThrows = []"
  by (simp add: handleSubmit_def sample_eval)

section \<open>Required-key resolution\<close>

text \<open>
  Claim C4. The static table gives agent claude the anthropic key and agent codex the
  aigateway key, and holds no key for opencode, whose key is found from the model name:
  for every model string \<open>m\<close>, the gemini key if \<open>m\<close> contains the substring
  gemini; else the anthropic key if it contains claude, sonnet or opus; else the
  aigateway key if it contains gpt; otherwise both aigateway and anthropic.
\<close>

theorem required_key_resolution:
  "AGENT_API_KEY_REQUIREMENTS (lit ''claude'') = Some [Anthropic] \<and>
   AGENT_API_KEY_REQUIREMENTS (lit ''codex'') = Some [Aigateway] \<and>
   AGENT_API_KEY_REQUIREMENTS (lit ''opencode'') = Some [] \<and>
   getOpenCodeRequiredKeys m =
     (if sublist (lit ''gemini'') m then [Gemini]
      else if sublist (lit ''claude'') m \<or> sublist (lit ''sonnet'') m \<or> sublist (lit ''opus'') m
        then [Anthropic]
      else if sublist (lit ''gpt'') m then [Aigateway]
      else [Aigateway, Anthropic])"
proof -
  have "AGENT_API_KEY_REQUIREMENTS (lit ''claude'') = Some [Anthropic]"
    by (simp add: AGENT_API_KEY_REQUIREMENTS_def)
  moreover have "AGENT_API_KEY_REQUIREMENTS (lit ''codex'') = Some [Aigateway]"
    by (simp add: AGENT_API_KEY_REQUIREMENTS_def lit_def)
  moreover have "AGENT_API_KEY_REQUIREMENTS (lit ''opencode'') = Some []"
    by (simp add: AGENT_API_KEY_REQUIREMENTS_def lit_def)
  ultimately show ?thesis
    by (simp add: getOpenCodeRequiredKeys_def js_includes_sublist)
qed

theorem required_key_resolution_witness:
  "getOpenCodeRequiredKeys (lit ''gemini-3-pro-preview'') = [Gemini] \<and>
   getOpenCodeRequiredKeys (lit ''claude-sonnet-4-5-20250929'') = [Anthropic] \<and>
   getOpenCodeRequiredKeys (lit ''gpt-5.1-codex'') = [Aigateway] \<and>
   getOpenCodeRequiredKeys (lit ''llama-3'') = [Aigateway, Anthropic]"
  using required_key_resolution [of "lit ''gemini-3-pro-preview''"]
    required_key_resolution [of "lit ''claude-sonnet-4-5-20250929''"]
    required_key_resolution [of "lit ''gpt-5.1-codex''"]
    required_key_resolution [of "lit ''llama-3''"]
  by (simp add: js_includes_sublist [symmetric] lit_def)

section \<open>Agent and model\<close>




text \<open>
  Claim C6, amended to the states in which the form waits for an event. In every state
  reached by mounting and then by any sequence of agent changes, model changes, edits
  of the prompt and of the options, changes of the owner and repository, and writes of
  the repository cache, each taken once the effects it triggers have run, the selected
  agent is an agent of the catalog and the selected model is one of its models.
\<close>

theorem selected_model_belongs_to_selected_agent:
  "reachable f \<Longrightarrow>
     isCodingAgent (selectedAgent f) \<and> isAgentModel (selectedAgent f) (selectedModel f)"
proof (induction rule: reachable.induct)
  case (mounted i)
  show ?case
    by (simp add: mount_consistent) (simp add: mount_selectedAgent spec_resolveAgent_known)
next
  case (agent_changed r v)
  define r' where "r' = r\<lparr>selectedAgent := v, savedAgent := Some v\<rparr>"
  have "isCodingAgent (selectedAgent r')"
    using agent_changed.hyps by (simp add: r'_def)
  moreover have "isAgentModel (selectedAgent r') (selectedModel r')" if "\<not> modelEffectDepsChanged r r'"
    using that agent_changed.IH by (simp add: modelEffectDepsChanged_def r'_def)
  ultimately have "isAgentModel (selectedAgent (rerender r r')) (selectedModel (rerender r r'))"
    by (rule rerender_consistent)
  with agent_changed.hyps show ?case
    by (simp add: onAgentChange_def r'_def)
next
  case (model_changed r v)
  define r' where
    "r' = r\<lparr>selectedModel := v, savedModels := (savedModels r)(selectedAgent r := Some v)\<rparr>"
  have "isCodingAgent (selectedAgent r')"
    using model_changed.IH by (simp add: r'_def)
  moreover have "isAgentModel (selectedAgent r') (selectedModel r')" if "\<not> modelEffectDepsChanged r r'"
    using model_changed.hyps by (simp add: r'_def)
  ultimately have "isAgentModel (selectedAgent (rerender r r')) (selectedModel (rerender r r'))"
    by (rule rerender_consistent)
  with model_changed.IH show ?case
    by (simp add: onModelChange_def r'_def)
qed simp_all

theorem selected_model_belongs_to_selected_agent_witness:
  "reachable (onModelChange (lit ''gemini-3-pro-preview'')
     (onAgentChange (lit ''opencode'') (mount sample_inputs))) \<and>
   isAgentModel
     (selectedAgent (onModelChange (lit ''gemini-3-pro-preview'')
        (onAgentChange (lit ''opencode'') (mount sample_inputs))))
     (selectedModel (onModelChange (lit ''gemini-3-pro-preview'')
        (onAgentChange (lit ''opencode'') (mount sample_inputs))))"
proof -
  have "reachable (onAgentChange (lit ''opencode'') (mount sample_inputs))"
    by (intro reachable.intros) (simp add: isCodingAgent_iff)
  then have r: "reachable (onModelChange (lit ''gemini-3-pro-preview'')
     (onAgentChange (lit ''opencode'') (mount sample_inputs)))"
    by (rule reachable.intros) (simp add: isAgentModel_iff)
  from selected_model_belongs_to_selected_agent [OF r] r show ?thesis
    by simp
qed

text \<open>
  Claim C6 as stated speaks of every state. The first render, before its effects run,
  has the persisted agent with the default model of codex: with claude persisted, it
  pairs claude with gpt-5.1-codex, which is not a model of claude.
\<close>

theorem first_render_pair:
  "selectedAgent (initialState (sample_inputs\<lparr>savedAgent := Some (lit ''claude'')\<rparr>))
     = lit ''claude'' \<and>
   selectedModel (initialState (sample_inputs\<lparr>savedAgent := Some (lit ''claude'')\<rparr>))
     = lit ''gpt-5.1-codex'' \<and>
   \<not> isAgentModel
       (selectedAgent (initialState (sample_inputs\<lparr>savedAgent := Some (lit ''claude'')\<rparr>)))
       (selectedModel (initialState (sample_inputs\<lparr>savedAgent := Some (lit ''claude'')\<rparr>)))"
  by (simp add: initialState_def isCodingAgent_iff isAgentModel_iff DEFAULT_MODELS_def
        defaultAgent_def sample_inputs_def truthy_def lit_def)

section \<open>The repository cache\<close>




section \<open>The migration runner\<close>

text \<open>
  Claim C8. When the connection string is absent (not set, or empty), \<open>runMigrations\<close>
  rejects with the message that names the variable, having opened no connection.
  Otherwise it opens one connection (of pool size one), runs the migrations of the
  fixed directory and closes the connection last, whether the migration succeeded or
  threw. It resolves exactly when the variable is present and neither the migration
  nor the closing threw; run as the main module, the script then exits with status 0,
  and with status 1 in every other case.
\<close>

theorem migration_runner:
  "(missing (POSTGRES_URL w) \<longrightarrow>
      runMigrations w = ([ConsoleLog], Rejected ''POSTGRES_URL environment variable is required'')) \<and>
   (POSTGRES_URL w = Some url \<and> url \<noteq> [] \<longrightarrow>
      fst (runMigrations w) =
        [ConsoleLog, Postgres url 1, Migrate ''./lib/db/migrations'',
         (case migrate_throws w of None \<Rightarrow> ConsoleLog | Some error \<Rightarrow> ConsoleErr),
         EndConnection]) \<and>
   (snd (runMigrations w) = Resolved () \<longleftrightarrow>
      \<not> missing (POSTGRES_URL w) \<and> migrate_throws w = None \<and> end_throws w = None) \<and>
   migrate_script True w =
     fst (runMigrations w)
     @ (if snd (runMigrations w) = Resolved () then [ConsoleLog, Exit 0] else [ConsoleErr, Exit 1]) \<and>
   filter isExit (migrate_script True w) =
     [Exit (if snd (runMigrations w) = Resolved () then 0 else 1)]"
proof -
  have "runMigrations w = ([ConsoleLog], Rejected ''POSTGRES_URL environment variable is required'')"
    if "missing (POSTGRES_URL w)"
    using that by (simp add: runMigrations_def)
  moreover have "fst (runMigrations w) =
        [ConsoleLog, Postgres url 1, Migrate ''./lib/db/migrations'',
         (case migrate_throws w of None \<Rightarrow> ConsoleLog | Some error \<Rightarrow> ConsoleErr),
         EndConnection]" if "POSTGRES_URL w = Some url" "url \<noteq> []"
    using that by (simp add: runMigrations_def missing_def split: option.splits)
  moreover have "snd (runMigrations w) = Resolved () \<longleftrightarrow>
      \<not> missing (POSTGRES_URL w) \<and> migrate_throws w = None \<and> end_throws w = None"
    by (simp add: runMigrations_def split: option.splits)
  moreover have "migrate_script True w =
     fst (runMigrations w)
     @ (if snd (runMigrations w) = Resolved () then [ConsoleLog, Exit 0] else [ConsoleErr, Exit 1])"
    by (cases "runMigrations w"; cases "snd (runMigrations w)")
      (simp_all add: migrate_script_def)
  moreover have "filter isExit (fst (runMigrations w)) = []"
    by (simp add: runMigrations_def isExit_def split: option.splits)
  ultimately show ?thesis by (simp add: isExit_def)
qed

theorem migration_runner_witness:
  "fst (runMigrations sample_migrate_world) =
     [ConsoleLog, Postgres ''postgres://localhost/app'' 1, Migrate ''./lib/db/migrations'',
      ConsoleErr, EndConnection] \<and>
   snd (runMigrations sample_migrate_world) \<noteq> Resolved () \<and>
   filter isExit (migrate_script True sample_migrate_world) = [Exit 1] \<and>
   runMigrations (sample_migrate_world\<lparr>POSTGRES_URL := None\<rparr>) =
     ([ConsoleLog], Rejected ''POSTGRES_URL environment variable is required'') \<and>
   filter isExit (migrate_script True (sample_migrate_world\<lparr>migrate_throws := None\<rparr>))
     = [Exit 0]"
proof -
  note failing = migration_runner [of sample_migrate_world "''postgres://localhost/app''"]
  note absent = migration_runner [of "sample_migrate_world\<lparr>POSTGRES_URL := None\<rparr>" "[]"]
  note succeeding =
    migration_runner [of "sample_migrate_world\<lparr>migrate_throws := None\<rparr>"
      "''postgres://localhost/app''"]
  have 1: "fst (runMigrations sample_migrate_world) =
     [ConsoleLog, Postgres ''postgres://localhost/app'' 1, Migrate ''./lib/db/migrations'',
      ConsoleErr, EndConnection]"
    using failing by (simp add: sample_migrate_world_def)
  have 2: "snd (runMigrations sample_migrate_world) \<noteq> Resolved ()"
    using failing by (simp add: sample_migrate_world_def)
  from failing have "filter isExit (migrate_script True sample_migrate_world) =
      [Exit (if snd (runMigrations sample_migrate_world) = Resolved () then 0 else 1)]"
    by blast
  with 2 have 3: "filter isExit (migrate_script True sample_migrate_world) = [Exit 1]"
    by simp
  have 4: "runMigrations (sample_migrate_world\<lparr>POSTGRES_URL := None\<rparr>) =
     ([ConsoleLog], Rejected ''POSTGRES_URL environment variable is required'')"
    using absent by (simp add: missing_def)
  have "snd (runMigrations (sample_migrate_world\<lparr>migrate_throws := None\<rparr>)) = Resolved ()"
    using succeeding by (simp add: sample_migrate_world_def missing_def)
  moreover from succeeding
  have "filter isExit (migrate_script True (sample_migrate_world\<lparr>migrate_throws := None\<rparr>)) =
      [Exit (if snd (runMigrations (sample_migrate_world\<lparr>migrate_throws := None\<rparr>)) = Resolved ()
             then 0 else 1)]"
    by blast
  ultimately
  have 5: "filter isExit (migrate_script True (sample_migrate_world\<lparr>migrate_throws := None\<rparr>))
     = [Exit 0]"
    by simp
  from 1 2 3 4 5 show ?thesis
    by simp
qed

section \<open>The reset tool\<close>

text \<open>
  Claim C9, amended in the number of tables. Given the connection string,
  \<open>resetDatabase\<close> opens one connection and closes it last and once, whether the
  queries succeeded or one of them threw; the queries it issues are an initial part of
  its list of statements, which is the cascading drop of the schema drizzle, if it
  exists, followed by the cascading drops, if they exist, of ten named tables. When no
  query throws, all eleven statements are issued, and for every database, whichever of
  the tables it has, the run resolves (unless closing throws) with the schema and the
  ten tables gone.
\<close>

theorem reset_tool:
  assumes "reset_POSTGRES_URL w = Some url" and "url \<noteq> []"
  shows "filter isPostgres (fst (resetDatabase w)) = [Postgres url 1] \<and>
         last (fst (resetDatabase w)) = EndConnection \<and>
         count_list (fst (resetDatabase w)) EndConnection = 1 \<and>
         prefix (issued_queries (fst (resetDatabase w))) reset_statements \<and>
         reset_statements =
           DropSchemaIfExistsCascade ''drizzle''
           # map DropTableIfExistsCascade
               [''anonymous_chat_logs'', ''chat_ownerships'', ''accounts'', ''connectors'',
                ''keys'', ''settings'', ''task_messages'', ''tasks'', ''users'',
                ''__drizzle_migrations''] \<and>
         ((\<forall>i. query_throws w i = None) \<longrightarrow>
            issued_queries (fst (resetDatabase w)) = reset_statements \<and>
            snd (resetDatabase w) =
              (case reset_end_throws w of
                 None \<Rightarrow> Resolved (fold exec_stmt reset_statements (reset_db w))
               | Some error \<Rightarrow> Rejected error) \<and>
            schemas (fold exec_stmt reset_statements (reset_db w))
              = schemas (reset_db w) - {''drizzle''} \<and>
            tables (fold exec_stmt reset_statements (reset_db w))
              = tables (reset_db w)
                - {''anonymous_chat_logs'', ''chat_ownerships'', ''accounts'', ''connectors'',
                   ''keys'', ''settings'', ''task_messages'', ''tasks'', ''users'',
                   ''__drizzle_migrations''})"
proof -
  from resetDatabase_events [OF assms] obtain k where
    ev: "fst (resetDatabase w) =
               [ConsoleLog, Postgres url 1, ConsoleLog] @ map Query (take k reset_statements)
               @ [case snd (run_queries (query_throws w) 0 reset_statements (reset_db w)) of
                    Resolved db \<Rightarrow> ConsoleLog | Rejected error \<Rightarrow> ConsoleErr]
               @ [EndConnection]" ..
  have 1: "filter isPostgres (fst (resetDatabase w)) = [Postgres url 1]"
    by (simp add: ev isPostgres_def split: outcome.splits)
  have 2: "last (fst (resetDatabase w)) = EndConnection"
    by (simp add: ev)
  have 3: "count_list (fst (resetDatabase w)) EndConnection = 1"
    by (simp add: ev split: outcome.splits)
  have "issued_queries (fst (resetDatabase w)) = take k reset_statements"
    by (simp add: ev split: outcome.splits)
  then have 4: "prefix (issued_queries (fst (resetDatabase w))) reset_statements"
    by (simp add: take_is_prefix)
  have 5: "issued_queries (fst (resetDatabase w)) = reset_statements \<and>
            snd (resetDatabase w) =
              (case reset_end_throws w of
                 None \<Rightarrow> Resolved (fold exec_stmt reset_statements (reset_db w))
               | Some error \<Rightarrow> Rejected error)"
    if "\<forall>i. query_throws w i = None"
  proof -
    have "run_queries (query_throws w) 0 reset_statements (reset_db w) =
            (map Query reset_statements, Resolved (fold exec_stmt reset_statements (reset_db w)))"
      using that by (simp add: run_queries_ok)
    with assms show ?thesis
      by (simp add: resetDatabase_def missing_def)
  qed
  have 6: "schemas (fold exec_stmt reset_statements (reset_db w))
              = schemas (reset_db w) - {''drizzle''}"
    by (simp add: fold_exec_schemas dropped_schemas_reset)
  have 7: "tables (fold exec_stmt reset_statements (reset_db w))
              = tables (reset_db w)
                - {''anonymous_chat_logs'', ''chat_ownerships'', ''accounts'', ''connectors'',
                   ''keys'', ''settings'', ''task_messages'', ''tasks'', ''users'',
                   ''__drizzle_migrations''}"
    by (simp add: fold_exec_tables dropped_tables_reset)
  from 1 2 3 4 5 6 7 reset_statements_shape show ?thesis
    by blast
qed

theorem reset_tool_witness:
  "filter isPostgres (fst (resetDatabase sample_reset_world))
     = [Postgres ''postgres://localhost/app'' 1] \<and>
   last (fst (resetDatabase sample_reset_world)) = EndConnection \<and>
   issued_queries (fst (resetDatabase sample_reset_world)) = reset_statements \<and>
   snd (resetDatabase sample_reset_world)
     = Resolved (fold exec_stmt reset_statements (reset_db sample_reset_world)) \<and>
   schemas (fold exec_stmt reset_statements (reset_db sample_reset_world)) = {''public''} \<and>
   tables (fold exec_stmt reset_statements (reset_db sample_reset_world)) = {''notes''}"
proof -
  have u: "reset_POSTGRES_URL sample_reset_world = Some ''postgres://localhost/app''"
    and n: "''postgres://localhost/app'' \<noteq> []"
    and q: "\<forall>i. query_throws sample_reset_world i = None"
    and e: "reset_end_throws sample_reset_world = None"
    by (simp_all add: sample_reset_world_def)
  have s: "schemas (reset_db sample_reset_world) - {''drizzle''} = {''public''}"
    by (auto simp: sample_reset_world_def)
  have t: "tables (reset_db sample_reset_world)
                - {''anonymous_chat_logs'', ''chat_ownerships'', ''accounts'', ''connectors'',
                   ''keys'', ''settings'', ''task_messages'', ''tasks'', ''users'',
                   ''__drizzle_migrations''} = {''notes''}"
    by (auto simp: sample_reset_world_def)
  from reset_tool [OF u n] q e s t show ?thesis
    by simp
qed

text \<open>
  Claim C9 as stated counts eleven named tables beside the schema. A run in which every
  query succeeds drops ten distinct tables, not eleven.
\<close>

theorem reset_tool_ten_tables:
  "issued_queries (fst (resetDatabase sample_reset_world)) = reset_statements \<and>
   length (dropped_tables (issued_queries (fst (resetDatabase sample_reset_world)))) = 10 \<and>
   distinct (dropped_tables (issued_queries (fst (resetDatabase sample_reset_world)))) \<and>
   length (dropped_tables (issued_queries (fst (resetDatabase sample_reset_world)))) \<noteq> 11"
proof -
  have "run_queries (query_throws sample_reset_world) 0 reset_statements (reset_db sample_reset_world) =
            (map Query reset_statements,
             Resolved (fold exec_stmt reset_statements (reset_db sample_reset_world)))"
    by (rule run_queries_ok) (simp add: sample_reset_world_def)
  then have "issued_queries (fst (resetDatabase sample_reset_world)) = reset_statements"
    by (simp add: resetDatabase_def missing_def) (simp add: sample_reset_world_def)
  then show ?thesis
    by (simp add: dropped_tables_reset)
qed

end
